theory Spec2Isabelle
  imports Complex_Main "HOL-Library.Sublist"
begin

section \<open>JavaScript values\<close>

text \<open>
  The values that \<^verbatim>\<open>JSON.parse\<close> produces and that \<^verbatim>\<open>server.js\<close> passes around. A number
  is a real (every finite double is one; \<^verbatim>\<open>-0\<close> and \<^verbatim>\<open>0\<close> are both falsy and are
  identified); an object is the list of its own properties in enumeration order, with
  distinct keys, looked up by key.
\<close>

datatype jsval =
    Undefined
  | Null
  | Bool bool
  | Num real
  | Str string
  | Arr "jsval list"
  | Obj "(string \<times> jsval) list"

text \<open>\<^verbatim>\<open>ToBoolean\<close>: what \<^verbatim>\<open>if (v)\<close>, \<^verbatim>\<open>v && w\<close>, \<^verbatim>\<open>v || w\<close> and \<^verbatim>\<open>!v\<close> test.\<close>

fun truthy :: "jsval \<Rightarrow> bool" where
  "truthy Undefined = False"
| "truthy Null = False"
| "truthy (Bool b) = b"
| "truthy (Num n) = (n \<noteq> 0)"
| "truthy (Str s) = (s \<noteq> [])"
| "truthy (Arr xs) = True"
| "truthy (Obj kvs) = True"

text \<open>\<^verbatim>\<open>a || b\<close>\<close>

definition js_or :: "jsval \<Rightarrow> jsval \<Rightarrow> jsval" where
  "js_or a b = (if truthy a then a else b)"

text \<open>Reading a property of \<^verbatim>\<open>null\<close> or \<^verbatim>\<open>undefined\<close> throws a TypeError.\<close>

definition nullish :: "jsval \<Rightarrow> bool" where
  "nullish v = (v = Undefined \<or> v = Null)"

text \<open>
  \<^verbatim>\<open>v.k\<close> for a value that is not nullish. The property names that \<^verbatim>\<open>server.js\<close> reads as
  data from parsed JSON (\<^verbatim>\<open>type\<close>, \<^verbatim>\<open>thread_id\<close>, \<^verbatim>\<open>item\<close>, \<^verbatim>\<open>text\<close>, \<^verbatim>\<open>usage\<close>, \<^verbatim>\<open>result\<close>,
  \<^verbatim>\<open>session_id\<close>, \<^verbatim>\<open>prompt\<close>, \<^verbatim>\<open>provider\<close>, ...) are inherited by no string, number, boolean,
  array or object, so only an object's own properties can answer.
\<close>

fun get :: "jsval \<Rightarrow> string \<Rightarrow> jsval" where
  "get (Obj kvs) k = (case map_of kvs k of None \<Rightarrow> Undefined | Some v \<Rightarrow> v)"
| "get v k = Undefined"

text \<open>
  \<^verbatim>\<open>(v).slice(0, n)\<close> is evaluated for logging; it throws a TypeError unless \<^verbatim>\<open>v\<close> is a
  string or an array (no other parsed value has a callable \<^verbatim>\<open>slice\<close>).
\<close>

fun has_slice :: "jsval \<Rightarrow> bool" where
  "has_slice (Str s) = True"
| "has_slice (Arr xs) = True"
| "has_slice v = False"

section \<open>Strings\<close>

text \<open>
  A string is the list of the bytes of its UTF-8 encoding, so a code point beyond ASCII is
  several characters. \<^verbatim>\<open>String.prototype.trim\<close> removes the code points of WhiteSpace and
  LineTerminator: U+0009 to U+000D, U+0020, U+00A0, U+1680, U+2000 to U+200A, U+2028, U+2029,
  U+202F, U+205F, U+3000 and U+FEFF, listed here by their encodings.
\<close>

definition white_space :: "string list" where
  "white_space =
     [[CHR 0x09], [CHR 0x0A], [CHR 0x0B], [CHR 0x0C], [CHR 0x0D], [CHR 0x20],
      [CHR 0xC2, CHR 0xA0],
      [CHR 0xE1, CHR 0x9A, CHR 0x80],
      [CHR 0xE2, CHR 0x80, CHR 0x80], [CHR 0xE2, CHR 0x80, CHR 0x81],
      [CHR 0xE2, CHR 0x80, CHR 0x82], [CHR 0xE2, CHR 0x80, CHR 0x83],
      [CHR 0xE2, CHR 0x80, CHR 0x84], [CHR 0xE2, CHR 0x80, CHR 0x85],
      [CHR 0xE2, CHR 0x80, CHR 0x86], [CHR 0xE2, CHR 0x80, CHR 0x87],
      [CHR 0xE2, CHR 0x80, CHR 0x88], [CHR 0xE2, CHR 0x80, CHR 0x89],
      [CHR 0xE2, CHR 0x80, CHR 0x8A],
      [CHR 0xE2, CHR 0x80, CHR 0xA8], [CHR 0xE2, CHR 0x80, CHR 0xA9],
      [CHR 0xE2, CHR 0x80, CHR 0xAF],
      [CHR 0xE2, CHR 0x81, CHR 0x9F],
      [CHR 0xE3, CHR 0x80, CHR 0x80],
      [CHR 0xEF, CHR 0xBB, CHR 0xBF]]"

text \<open>Removes, from the front of \<open>s\<close>, every leading occurrence of a sequence of \<open>ws\<close>.\<close>

function strip :: "string list \<Rightarrow> string \<Rightarrow> string" where
  "strip ws s =
     (case find (\<lambda>w. w \<noteq> [] \<and> prefix w s) ws of
        None \<Rightarrow> s
      | Some w \<Rightarrow> strip ws (drop (length w) s))"
  by pat_completeness auto
termination
proof (relation "measure (\<lambda>(ws, s). length s)")
  show "wf (measure (\<lambda>(ws, s). length s))" by simp
next
  fix ws :: "string list" and s w :: string
  assume "find (\<lambda>w. w \<noteq> [] \<and> prefix w s) ws = Some w"
  then have "w \<noteq> []" and "prefix w s"
    by (auto simp: find_Some_iff)
  then have "s \<noteq> []" by auto
  with \<open>w \<noteq> []\<close> show "((ws, drop (length w) s), (ws, s)) \<in> measure (\<lambda>(ws, s). length s)"
    by simp
qed

declare strip.simps [simp del]

text \<open>\<^verbatim>\<open>s.trim()\<close>: white space goes from both ends.\<close>

definition trim :: "string \<Rightarrow> string" where
  "trim s = rev (strip (map rev white_space) (rev (strip white_space s)))"

text \<open>\<^verbatim>\<open>s.split("\n")\<close>: the empty string splits into one empty piece.\<close>

fun split_nl :: "string \<Rightarrow> string list" where
  "split_nl [] = [[]]"
| "split_nl (c # cs) =
     (if c = CHR 0x0A then [] # split_nl cs
      else (case split_nl cs of [] \<Rightarrow> [[c]] | l # ls \<Rightarrow> (c # l) # ls))"

text \<open>\<^verbatim>\<open>String(i)\<close> for an integer: its decimal digits, after the sign.\<close>

function show_digits :: "int \<Rightarrow> string" where
  "show_digits n =
     (if n < 10 then [char_of (48 + n)]
      else show_digits (n div 10) @ [char_of (48 + n mod 10)])"
  by pat_completeness auto
termination
  by (relation "measure nat") auto

declare show_digits.simps [simp del]

definition show_int :: "int \<Rightarrow> string" where
  "show_int i = (if i < 0 then CHR ''-'' # show_digits (- i) else show_digits i)"

section \<open>parseCodexJSONL\<close>

record codex_parsed =
  sessionId :: jsval
  result :: jsval
  tokenUsage :: jsval
  aborted :: bool

text \<open>\<^verbatim>\<open>let sessionId = null; let result = ""; let tokenUsage = null; let aborted = false;\<close>\<close>

definition codex_init :: codex_parsed where
  "codex_init = \<lparr>sessionId = Null, result = Str [], tokenUsage = Null, aborted = False\<rparr>"

text \<open>
  The body of the \<^verbatim>\<open>try\<close> after \<^verbatim>\<open>JSON.parse(line)\<close>, on the four variables. \<open>None\<close> is a
  TypeError: \<^verbatim>\<open>event.type\<close> on \<^verbatim>\<open>null\<close>, thrown before any variable is assigned. Every later
  property read is on a value already tested truthy.
\<close>

definition codex_event :: "codex_parsed \<Rightarrow> jsval \<Rightarrow> codex_parsed option" where
  "codex_event acc event =
     (if nullish event then None
      else
        let a1 = (if get event ''type'' = Str ''thread.started'' \<and> truthy (get event ''thread_id'')
                  then acc\<lparr>sessionId := get event ''thread_id''\<rparr> else acc);
            a2 = (if get event ''type'' = Str ''item.completed'' \<and> truthy (get event ''item'')
                     \<and> get (get event ''item'') ''type'' = Str ''agent_message''
                  then a1\<lparr>result := js_or (get (get event ''item'') ''text'') (Str [])\<rparr> else a1);
            a3 = (if get event ''type'' = Str ''turn.completed'' \<and> truthy (get event ''usage'')
                  then a2\<lparr>tokenUsage := get event ''usage''\<rparr> else a2);
            a4 = (if get event ''type'' = Str ''turn.aborted''
                  then a3\<lparr>aborted := True\<rparr> else a3)
        in Some a4)"

text \<open>
  One iteration of the loop. \<open>parse\<close> is the runtime's \<^verbatim>\<open>JSON.parse\<close>, \<open>None\<close> where it
  throws a SyntaxError; the \<^verbatim>\<open>catch\<close> swallows that and the TypeError alike.
\<close>

definition codex_line :: "(string \<Rightarrow> jsval option) \<Rightarrow> codex_parsed \<Rightarrow> string \<Rightarrow> codex_parsed" where
  "codex_line parse acc line =
     (case parse line of
        None \<Rightarrow> acc
      | Some event \<Rightarrow> (case codex_event acc event of None \<Rightarrow> acc | Some acc' \<Rightarrow> acc'))"

text \<open>\<^verbatim>\<open>stdout.trim().split("\n").filter(Boolean)\<close>\<close>

definition codex_lines :: "string \<Rightarrow> string list" where
  "codex_lines stdout = filter (\<lambda>l. l \<noteq> []) (split_nl (trim stdout))"

definition parseCodexJSONL :: "(string \<Rightarrow> jsval option) \<Rightarrow> string \<Rightarrow> codex_parsed" where
  "parseCodexJSONL parse stdout = foldl (codex_line parse) codex_init (codex_lines stdout)"

section \<open>The host\<close>

text \<open>
  What one spawned process does, as the adapter's promise sees it: the \<^verbatim>\<open>close\<close> event with
  the exit code (\<^verbatim>\<open>null\<close> when a signal ended the process) and the output captured so far,
  the 120 s timer firing first, or the \<^verbatim>\<open>error\<close> event (also \<^verbatim>\<open>spawn\<close> itself throwing).
  The first of the three settles the promise; later ones find it settled.
\<close>

datatype proc_outcome =
    Closed "int option" string string
  | TimedOut
  | SpawnError string

text \<open>What is thrown: an \<^verbatim>\<open>Error\<close> with its message, or the runtime's TypeError.\<close>

datatype thrown = Error string | TypeError

datatype settled = Resolved jsval | Rejected thrown

text \<open>
  The runtime and the machine, taken as they are: \<^verbatim>\<open>JSON.parse\<close> (\<open>None\<close> where it throws),
  the \<^verbatim>\<open>+\<close> of two values, what a spawned binary does with its arguments,
  \<^verbatim>\<open>fs.existsSync\<close>, \<^verbatim>\<open>Date.now()\<close> and \<^verbatim>\<open>new Date().toISOString()\<close>.
\<close>

record host =
  JSON_parse :: "string \<Rightarrow> jsval option"
  plus_js :: "jsval \<Rightarrow> jsval \<Rightarrow> jsval"
  spawn :: "string \<Rightarrow> jsval list \<Rightarrow> proc_outcome"
  existsSync :: "string \<Rightarrow> bool"
  now :: int
  toISOString :: string

definition CLAUDE :: string where "CLAUDE = ''/opt/homebrew/bin/claude''"
definition CODEX :: string where "CODEX = ''/opt/homebrew/bin/codex''"
definition GEMINI :: string where "GEMINI = ''/opt/homebrew/bin/gemini''"

text \<open>\<^verbatim>\<open>${code}\<close> in the failure message.\<close>

definition show_code :: "int option \<Rightarrow> string" where
  "show_code code = (case code of None \<Rightarrow> ''null'' | Some c \<Rightarrow> show_int c)"

section \<open>callClaude\<close>

definition claude_args :: "jsval \<Rightarrow> jsval \<Rightarrow> jsval list" where
  "claude_args prompt options =
     [Str ''-p'', prompt, Str ''--output-format'', Str ''json'']
     @ (if truthy (get options ''sessionId'') then [Str ''--resume'', get options ''sessionId''] else [])
     @ (if truthy (get options ''model'') then [Str ''--model'', get options ''model''] else [])
     @ (if truthy (get options ''systemPrompt'')
        then [Str ''--system-prompt'', get options ''systemPrompt''] else [])"

text \<open>
  The \<^verbatim>\<open>try\<close> block of the \<^verbatim>\<open>close\<close> handler; \<open>None\<close> when it throws: \<^verbatim>\<open>JSON.parse\<close> fails,
  \<^verbatim>\<open>parsed\<close> is \<^verbatim>\<open>null\<close>, or \<^verbatim>\<open>(parsed.result || "").slice\<close> is not a function.
\<close>

definition claude_try :: "(string \<Rightarrow> jsval option) \<Rightarrow> string \<Rightarrow> jsval option" where
  "claude_try parse stdout =
     (case parse stdout of
        None \<Rightarrow> None
      | Some parsed \<Rightarrow>
          if nullish parsed then None
          else if has_slice (js_or (get parsed ''result'') (Str [])) then Some parsed
          else None)"

definition claude_close :: "(string \<Rightarrow> jsval option) \<Rightarrow> int option \<Rightarrow> string \<Rightarrow> string \<Rightarrow> settled" where
  "claude_close parse code stdout stderr =
     (if code \<noteq> Some 0
      then Rejected (Error (if stderr \<noteq> [] then stderr else ''claude exited with code '' @ show_code code))
      else (case claude_try parse stdout of
              Some parsed \<Rightarrow> Resolved parsed
            | None \<Rightarrow> Resolved (Obj [(''result'', Str (trim stdout))])))"

text \<open>
  The promise: how it settles, and the processes spawned (binary and arguments).
  \<^verbatim>\<open>options.sessionId\<close> is read while the arguments are built and \<^verbatim>\<open>prompt.slice(0, 80)\<close> is
  evaluated for the log, both before the spawn: with \<^verbatim>\<open>null\<close> for the options, or a prompt
  without \<^verbatim>\<open>slice\<close>, the promise is rejected there and nothing is spawned. Options that are
  \<^verbatim>\<open>undefined\<close> take the default \<^verbatim>\<open>{}\<close>, which reads as \<open>Undefined\<close> does.
\<close>

definition callClaude :: "host \<Rightarrow> jsval \<Rightarrow> jsval \<Rightarrow> settled \<times> (string \<times> jsval list) list" where
  "callClaude h prompt options =
     (if options = Null \<or> \<not> has_slice prompt then (Rejected TypeError, [])
      else
        (case spawn h CLAUDE (claude_args prompt options) of
           TimedOut \<Rightarrow> Rejected (Error ''Claude timed out after 120s'')
         | SpawnError m \<Rightarrow> Rejected (Error m)
         | Closed code stdout stderr \<Rightarrow> claude_close (JSON_parse h) code stdout stderr,
         [(CLAUDE, claude_args prompt options)]))"

section \<open>callGemini\<close>

definition gemini_args :: "jsval \<Rightarrow> jsval \<Rightarrow> jsval list" where
  "gemini_args prompt options =
     [Str ''-o'', Str ''json'']
     @ (if truthy (get options ''sessionId'') then [Str ''--resume'', get options ''sessionId''] else [])
     @ [prompt, Str ''--yolo'']"

text \<open>\<^verbatim>\<open>Object.values(v)\<close> of a value that is not nullish.\<close>

fun object_values :: "jsval \<Rightarrow> jsval list" where
  "object_values (Obj kvs) = map snd kvs"
| "object_values (Arr xs) = xs"
| "object_values (Str s) = map (\<lambda>c. Str [c]) s"
| "object_values v = []"

text \<open>
  The loop over \<^verbatim>\<open>Object.values(parsed.stats.models)\<close> on \<^verbatim>\<open>tokenInput\<close> and \<^verbatim>\<open>tokenOutput\<close>;
  \<open>None\<close> is the TypeError of \<^verbatim>\<open>modelData.tokens\<close> on \<^verbatim>\<open>null\<close>.
\<close>

fun gemini_sum :: "(jsval \<Rightarrow> jsval \<Rightarrow> jsval) \<Rightarrow> jsval \<times> jsval \<Rightarrow> jsval list \<Rightarrow> (jsval \<times> jsval) option" where
  "gemini_sum add acc [] = Some acc"
| "gemini_sum add acc (modelData # rest) =
     (if nullish modelData then None
      else if truthy (get modelData ''tokens'')
      then gemini_sum add
             (add (fst acc) (js_or (get (get modelData ''tokens'') ''input'') (Num 0)),
              add (snd acc)
                (js_or (js_or (get (get modelData ''tokens'') ''candidates'')
                              (get (get modelData ''tokens'') ''output'')) (Num 0)))
             rest
      else gemini_sum add acc rest)"

definition gemini_try :: "(string \<Rightarrow> jsval option) \<Rightarrow> (jsval \<Rightarrow> jsval \<Rightarrow> jsval) \<Rightarrow> string \<Rightarrow> jsval option" where
  "gemini_try parse add stdout =
     (case parse stdout of
        None \<Rightarrow> None
      | Some parsed \<Rightarrow>
          if nullish parsed then None
          else
            (case (if truthy (get parsed ''stats'') \<and> truthy (get (get parsed ''stats'') ''models'')
                   then gemini_sum add (Num 0, Num 0)
                          (object_values (get (get parsed ''stats'') ''models''))
                   else Some (Num 0, Num 0)) of
               None \<Rightarrow> None
             | Some tokens \<Rightarrow>
                 if has_slice (js_or (get parsed ''response'') (Str []))
                 then Some (Obj [(''result'', get parsed ''response''),
                                 (''session_id'', get parsed ''session_id''),
                                 (''token_usage'',
                                    Obj [(''input'', fst tokens), (''output'', snd tokens)])])
                 else None))"

definition gemini_close ::
  "(string \<Rightarrow> jsval option) \<Rightarrow> (jsval \<Rightarrow> jsval \<Rightarrow> jsval) \<Rightarrow> int option \<Rightarrow> string \<Rightarrow> string \<Rightarrow> settled" where
  "gemini_close parse add code stdout stderr =
     (if code \<noteq> Some 0
      then Rejected (Error (if stderr \<noteq> [] then stderr else ''gemini exited with code '' @ show_code code))
      else (case gemini_try parse add stdout of
              Some r \<Rightarrow> Resolved r
            | None \<Rightarrow> Resolved (Obj [(''result'', Str (trim stdout))])))"

definition callGemini :: "host \<Rightarrow> jsval \<Rightarrow> jsval \<Rightarrow> settled \<times> (string \<times> jsval list) list" where
  "callGemini h prompt options =
     (if options = Null \<or> \<not> has_slice prompt then (Rejected TypeError, [])
      else
        (case spawn h GEMINI (gemini_args prompt options) of
           TimedOut \<Rightarrow> Rejected (Error ''Gemini timed out after 120s'')
         | SpawnError m \<Rightarrow> Rejected (Error m)
         | Closed code stdout stderr \<Rightarrow>
             gemini_close (JSON_parse h) (plus_js h) code stdout stderr,
         [(GEMINI, gemini_args prompt options)]))"

section \<open>callCodex\<close>

definition codex_args :: "jsval \<Rightarrow> jsval \<Rightarrow> jsval list" where
  "codex_args prompt options =
     (if truthy (get options ''sessionId'')
      then [Str ''exec'', Str ''resume'', get options ''sessionId'', prompt,
            Str ''--json'', Str ''--full-auto'', Str ''--skip-git-repo-check'']
      else [Str ''exec'', prompt, Str ''--json'', Str ''--full-auto'', Str ''--skip-git-repo-check''])
     @ (if truthy (get options ''model'') then [Str ''--model'', get options ''model''] else [])"

text \<open>
  The \<^verbatim>\<open>try\<close> block of the \<^verbatim>\<open>close\<close> handler; \<open>None\<close> when it throws, which only
  \<^verbatim>\<open>(parsed.result || "").slice\<close> can.
\<close>

definition codex_try :: "(string \<Rightarrow> jsval option) \<Rightarrow> string \<Rightarrow> jsval option" where
  "codex_try parse stdout =
     (let parsed = parseCodexJSONL parse stdout
      in if has_slice (js_or (result parsed) (Str []))
         then Some (Obj [(''result'', result parsed),
                         (''session_id'', sessionId parsed),
                         (''token_usage'', tokenUsage parsed)])
         else None)"

definition codex_close :: "(string \<Rightarrow> jsval option) \<Rightarrow> int option \<Rightarrow> string \<Rightarrow> string \<Rightarrow> settled" where
  "codex_close parse code stdout stderr =
     (if code \<noteq> Some 0
      then Rejected (Error (if stderr \<noteq> [] then stderr else ''codex exited with code '' @ show_code code))
      else (case codex_try parse stdout of
              Some r \<Rightarrow> Resolved r
            | None \<Rightarrow> Resolved (Obj [(''result'', Str (trim stdout))])))"

definition callCodex :: "host \<Rightarrow> jsval \<Rightarrow> jsval \<Rightarrow> settled \<times> (string \<times> jsval list) list" where
  "callCodex h prompt options =
     (if options = Null \<or> \<not> has_slice prompt then (Rejected TypeError, [])
      else
        (case spawn h CODEX (codex_args prompt options) of
           TimedOut \<Rightarrow> Rejected (Error ''Codex timed out after 120s'')
         | SpawnError m \<Rightarrow> Rejected (Error m)
         | Closed code stdout stderr \<Rightarrow> codex_close (JSON_parse h) code stdout stderr,
         [(CODEX, codex_args prompt options)]))"

section \<open>extractTokens\<close>

text \<open>For a \<open>result\<close> that is not nullish, as every value an adapter resolves with is.\<close>

definition extractTokens :: "(jsval \<Rightarrow> jsval \<Rightarrow> jsval) \<Rightarrow> jsval \<Rightarrow> string \<Rightarrow> jsval" where
  "extractTokens add r provider =
     (if provider = ''codex'' \<and> truthy (get r ''token_usage'') then
        Obj [(''input'', js_or (js_or (get (get r ''token_usage'') ''input_tokens'')
                                      (get (get r ''token_usage'') ''total_input_tokens'')) (Num 0)),
             (''output'', js_or (js_or (get (get r ''token_usage'') ''output_tokens'')
                                       (get (get r ''token_usage'') ''total_output_tokens'')) (Num 0))]
      else if provider = ''gemini'' \<and> truthy (get r ''token_usage'') then
        Obj [(''input'', js_or (get (get r ''token_usage'') ''input'') (Num 0)),
             (''output'', js_or (get (get r ''token_usage'') ''output'') (Num 0))]
      else if provider = ''claude'' \<and> truthy (get r ''usage'') then
        Obj [(''input'',
                add (add (js_or (get (get r ''usage'') ''input_tokens'') (Num 0))
                           (js_or (get (get r ''usage'') ''cache_read_input_tokens'') (Num 0)))
                     (js_or (get (get r ''usage'') ''cache_creation_input_tokens'') (Num 0))),
             (''output'', js_or (get (get r ''usage'') ''output_tokens'') (Num 0))]
      else Obj [(''input'', Num 0), (''output'', Num 0)])"

section \<open>The session store and the handlers\<close>

text \<open>
  \<^verbatim>\<open>sessions\<close> maps a conversation id to \<^verbatim>\<open>{ sessionId, turns, created, provider }\<close>. A
  conversation loaded from an older file may lack \<^verbatim>\<open>provider\<close> (\<open>None\<close>). The server state is
  the map and the processes spawned so far. \<^verbatim>\<open>saveSessions\<close> and \<^verbatim>\<open>log\<close> write to the disk and
  to the log queue, which these handlers never read back; they are left out. One request is
  handled at a time: the state does not change while a handler awaits its adapter.
\<close>

record conv =
  conv_sessionId :: jsval
  conv_turns :: nat
  conv_created :: string
  conv_provider :: "string option"

record server =
  sessions :: "string \<Rightarrow> conv option"
  spawned :: "(string \<times> jsval list) list"

text \<open>
  How a request to \<^verbatim>\<open>/ask\<close> fails, by the \<^verbatim>\<open>sendJSON\<close> that answers it: status 400 for a
  missing prompt, an invalid provider, a CLI that is not installed and a switch of provider
  (with the provider the conversation uses); status 500 with the message of what the
  \<^verbatim>\<open>catch\<close> caught.
\<close>

datatype ask_error =
    MissingPrompt
  | InvalidProvider
  | CodexNotFound
  | GeminiNotFound
  | ProviderMismatch string
  | Failed thrown

fun error_status :: "ask_error \<Rightarrow> nat" where
  "error_status (Failed e) = 500"
| "error_status e = 400"

text \<open>A name between apostrophes.\<close>

definition quoted :: "string \<Rightarrow> string" where
  "quoted s = CHR 0x27 # s @ [CHR 0x27]"

text \<open>The \<^verbatim>\<open>error\<close> field of the answer; \<open>None\<close> is the runtime's own text for a TypeError.\<close>

fun error_text :: "ask_error \<Rightarrow> string option" where
  "error_text MissingPrompt = Some (''Missing '' @ quoted ''prompt'' @ '' field'')"
| "error_text InvalidProvider =
     Some (''Invalid provider. Must be '' @ quoted ''claude'' @ '', '' @ quoted ''codex''
           @ '', or '' @ quoted ''gemini'')"
| "error_text CodexNotFound = Some (''Codex CLI not found at '' @ CODEX)"
| "error_text GeminiNotFound = Some (''Gemini CLI not found at '' @ GEMINI)"
| "error_text (ProviderMismatch p) =
     Some (''Cannot switch provider mid-conversation. This conversation uses '' @ p @ ''.'')"
| "error_text (Failed (Error m)) = Some m"
| "error_text (Failed TypeError) = None"

definition DEFAULT_SYSTEM_PROMPT :: string where
  "DEFAULT_SYSTEM_PROMPT =
     ''You are Claude, a helpful general-purpose AI assistant made by Anthropic. ''
     @ ''You help with any topic: writing, analysis, math, science, creative work, advice, current events, ''
     @ ''and general knowledge. You think deeply, reason carefully, and give thorough answers. ''
     @ ''You are not limited to coding tasks.''"

text \<open>\<^verbatim>\<open>{ sessionId: null, turns: 0, created: new Date().toISOString(), provider }\<close>\<close>

definition new_conv :: "host \<Rightarrow> string \<Rightarrow> conv" where
  "new_conv h p =
     \<lparr>conv_sessionId = Null, conv_turns = 0, conv_created = toISOString h, conv_provider = Some p\<rparr>"

text \<open>\<^verbatim>\<open>sessions.has(convId)\<close>: the keys are strings.\<close>

definition sessions_has :: "server \<Rightarrow> jsval \<Rightarrow> bool" where
  "sessions_has w convId = (case convId of Str c \<Rightarrow> sessions w c \<noteq> None | _ \<Rightarrow> False)"

text \<open>
  ``Get or create conversation'': the id the request names when the store has it, else a
  fresh \<^verbatim>\<open>"conv_" + Date.now()\<close> stored with the requested provider.
\<close>

definition resolve_conv :: "host \<Rightarrow> server \<Rightarrow> jsval \<Rightarrow> string \<Rightarrow> string \<times> server" where
  "resolve_conv h w convId p =
     (if \<not> truthy convId \<or> \<not> sessions_has w convId
      then (''conv_'' @ show_int (now h),
            w\<lparr>sessions := (sessions w)(''conv_'' @ show_int (now h) \<mapsto> new_conv h p)\<rparr>)
      else (case convId of Str c \<Rightarrow> (c, w) | _ \<Rightarrow> ([], w)))"

text \<open>\<^verbatim>\<open>conv.provider\<close> as a condition.\<close>

definition provider_set :: "conv \<Rightarrow> bool" where
  "provider_set c = (case conv_provider c of None \<Rightarrow> False | Some p \<Rightarrow> p \<noteq> [])"

text \<open>
  The handler of \<^verbatim>\<open>POST /ask\<close> up to its \<^verbatim>\<open>await\<close>. \<open>req\<close> is what \<^verbatim>\<open>readBody\<close> gives: the parsed
  body, \<open>None\<close> when it rejects. The answer is the failure sent, with the state then, or the
  state, conversation id, provider, body and conversation with which the adapter is called.
  A conversation missing from the store would make \<^verbatim>\<open>conv.turns\<close> a TypeError.
\<close>

definition ask_prepare ::
  "host \<Rightarrow> server \<Rightarrow> jsval option \<Rightarrow> (server \<times> ask_error) + (server \<times> string \<times> string \<times> jsval \<times> conv)" where
  "ask_prepare h w req =
     (case req of
        None \<Rightarrow> Inl (w, Failed (Error ''Invalid JSON body''))
      | Some body \<Rightarrow>
          if nullish body then Inl (w, Failed TypeError)
          else if \<not> truthy (get body ''prompt'') then Inl (w, MissingPrompt)
          else
            (case js_or (get body ''provider'') (Str ''claude'') of
               Str p \<Rightarrow>
                 if p \<noteq> ''claude'' \<and> p \<noteq> ''codex'' \<and> p \<noteq> ''gemini'' then Inl (w, InvalidProvider)
                 else if p = ''codex'' \<and> \<not> existsSync h CODEX then Inl (w, CodexNotFound)
                 else if p = ''gemini'' \<and> \<not> existsSync h GEMINI then Inl (w, GeminiNotFound)
                 else
                   (case resolve_conv h w (get body ''conversationId'') p of
                      (convId, w1) \<Rightarrow>
                        (case sessions w1 convId of
                           None \<Rightarrow> Inl (w1, Failed TypeError)
                         | Some c \<Rightarrow>
                             if conv_turns c > 0 \<and> provider_set c \<and> conv_provider c \<noteq> Some p
                             then Inl (w1, ProviderMismatch
                                             (case conv_provider c of Some q \<Rightarrow> q | None \<Rightarrow> []))
                             else
                               let c' = (if \<not> provider_set c then c\<lparr>conv_provider := Some p\<rparr> else c);
                                   w2 = w1\<lparr>sessions := (sessions w1)(convId \<mapsto> c')\<rparr>
                               in if \<not> has_slice (get body ''prompt'') then Inl (w2, Failed TypeError)
                                  else Inr (w2, convId, p, body, c')))
             | _ \<Rightarrow> Inl (w, InvalidProvider)))"

text \<open>The adapter the handler awaits, with the options it passes.\<close>

definition ask_invoke :: "host \<Rightarrow> string \<Rightarrow> jsval \<Rightarrow> conv \<Rightarrow> settled \<times> (string \<times> jsval list) list" where
  "ask_invoke h p body c =
     (if p = ''codex''
      then callCodex h (get body ''prompt'')
             (Obj [(''model'', get body ''model''), (''sessionId'', conv_sessionId c)])
      else if p = ''gemini''
      then callGemini h (get body ''prompt'') (Obj [(''sessionId'', conv_sessionId c)])
      else callClaude h (get body ''prompt'')
             (Obj [(''model'', get body ''model''),
                   (''systemPrompt'', js_or (get body ''systemPrompt'') (Str DEFAULT_SYSTEM_PROMPT)),
                   (''sessionId'', conv_sessionId c)]))"

text \<open>After the adapter resolved with \<open>r\<close>: the turn is recorded and the answer built.\<close>

definition ask_finish :: "host \<Rightarrow> server \<Rightarrow> string \<Rightarrow> string \<Rightarrow> conv \<Rightarrow> jsval \<Rightarrow> server \<times> jsval" where
  "ask_finish h w convId p c r =
     (let c1 = (if truthy (get r ''session_id'') then c\<lparr>conv_sessionId := get r ''session_id''\<rparr> else c);
          c2 = c1\<lparr>conv_turns := conv_turns c1 + 1\<rparr>
      in (w\<lparr>sessions := (sessions w)(convId \<mapsto> c2)\<rparr>,
          Obj [(''result'', get r ''result''),
               (''conversationId'', Str convId),
               (''provider'', Str p),
               (''turn'', Num (real (conv_turns c2))),
               (''durationMs'', get r ''duration_ms''),
               (''tokens'', extractTokens (plus_js h) r p)]))"

text \<open>\<^verbatim>\<open>POST /ask\<close>: the state afterwards, and the failure sent or the body of the answer.\<close>

definition ask :: "host \<Rightarrow> server \<Rightarrow> jsval option \<Rightarrow> server \<times> (ask_error + jsval)" where
  "ask h w req =
     (case ask_prepare h w req of
        Inl (w', e) \<Rightarrow> (w', Inl e)
      | Inr (w1, convId, p, body, c) \<Rightarrow>
          (case ask_invoke h p body c of
             (Rejected e, procs) \<Rightarrow> (w1\<lparr>spawned := spawned w1 @ procs\<rparr>, Inl (Failed e))
           | (Resolved r, procs) \<Rightarrow>
               (case ask_finish h (w1\<lparr>spawned := spawned w1 @ procs\<rparr>) convId p c r of
                  (w2, answer) \<Rightarrow> (w2, Inr answer))))"

text \<open>
  \<^verbatim>\<open>POST /new\<close>: the provider is \<^verbatim>\<open>claude\<close> unless the body names \<^verbatim>\<open>codex\<close> or \<^verbatim>\<open>gemini\<close>; a body
  that does not parse, or is \<^verbatim>\<open>null\<close>, is ignored.
\<close>

definition new_provider :: "jsval option \<Rightarrow> string" where
  "new_provider req =
     (case req of
        None \<Rightarrow> ''claude''
      | Some body \<Rightarrow>
          if nullish body then ''claude''
          else if get body ''provider'' = Str ''codex'' then ''codex''
          else if get body ''provider'' = Str ''gemini'' then ''gemini''
          else ''claude'')"

definition new_conversation :: "host \<Rightarrow> server \<Rightarrow> jsval option \<Rightarrow> server \<times> jsval" where
  "new_conversation h w req =
     (w\<lparr>sessions := (sessions w)(''conv_'' @ show_int (now h) \<mapsto> new_conv h (new_provider req))\<rparr>,
      Obj [(''conversationId'', Str (''conv_'' @ show_int (now h))),
           (''provider'', Str (new_provider req))])"

section \<open>formatDiscussionPrompt\<close>

text \<open>
  A transcript entry as \<^verbatim>\<open>/discuss\<close> receives it: \<^verbatim>\<open>role\<close> and \<^verbatim>\<open>provider\<close> are strings or
  absent, \<^verbatim>\<open>content\<close> is a string.
\<close>

record msg =
  role :: "string option"
  provider :: "string option"
  content :: string

text \<open>
  A display name: a string, or what \<^verbatim>\<open>nameMap\<close> inherits from \<^verbatim>\<open>Object.prototype\<close> under a
  key (\<^verbatim>\<open>nameMap["toString"]\<close> is a function, and truthy).
\<close>

datatype label = Txt string | Proto string

definition object_prototype_keys :: "string list" where
  "object_prototype_keys =
     [''constructor'', ''__proto__'', ''hasOwnProperty'', ''isPrototypeOf'',
      ''propertyIsEnumerable'', ''toLocaleString'', ''toString'', ''valueOf'',
      ''__defineGetter__'', ''__defineSetter__'', ''__lookupGetter__'', ''__lookupSetter__'']"

text \<open>\<^verbatim>\<open>const nameMap = { claude: "Claude", codex: "Codex", gemini: "Gemini" }\<close>, own entries.\<close>

definition nameMap_entries :: "(string \<times> string) list" where
  "nameMap_entries = [(''claude'', ''Claude''), (''codex'', ''Codex''), (''gemini'', ''Gemini'')]"

text \<open>\<^verbatim>\<open>nameMap[k]\<close>; \<open>None\<close> is \<^verbatim>\<open>undefined\<close>, and every other answer is truthy.\<close>

definition nameMap :: "string \<Rightarrow> label option" where
  "nameMap k =
     (case map_of nameMap_entries k of
        Some v \<Rightarrow> Some (Txt v)
      | None \<Rightarrow> if k \<in> set object_prototype_keys then Some (Proto k) else None)"

text \<open>\<^verbatim>\<open>nameMap[p] || p\<close>\<close>

definition display :: "string \<Rightarrow> label" where
  "display p = (case nameMap p of Some l \<Rightarrow> l | None \<Rightarrow> Txt p)"

text \<open>
  A label as a template or \<^verbatim>\<open>join\<close> writes it; \<open>proto_text k\<close> is the runtime's text for
  \<^verbatim>\<open>Object.prototype[k]\<close>.
\<close>

definition render :: "(string \<Rightarrow> string) \<Rightarrow> label \<Rightarrow> string" where
  "render proto_text l = (case l of Txt s \<Rightarrow> s | Proto k \<Rightarrow> proto_text k)"

text \<open>\<^verbatim>\<open>msg.provider\<close> as a condition: present and not empty.\<close>

definition provider_of :: "msg \<Rightarrow> string option" where
  "provider_of m = (case provider m of Some p \<Rightarrow> if p = [] then None else Some p | None \<Rightarrow> None)"

text \<open>The loop that fills \<^verbatim>\<open>seen\<close>, a set that keeps the order of first insertion.\<close>

fun seen_names :: "string \<Rightarrow> label list \<Rightarrow> msg list \<Rightarrow> label list" where
  "seen_names target seen [] = seen"
| "seen_names target seen (m # history) =
     (case provider_of m of
        None \<Rightarrow> seen_names target seen history
      | Some p \<Rightarrow>
          if p \<noteq> target then
            (case nameMap p of
               None \<Rightarrow> seen_names target seen history
             | Some l \<Rightarrow> seen_names target (if l \<in> set seen then seen else seen @ [l]) history)
          else seen_names target seen history)"

text \<open>
  \<^verbatim>\<open>otherNames\<close>: from the list of participants when it is there and not empty, else from
  the transcript, else every other entry of \<^verbatim>\<open>nameMap\<close>. \<open>None\<close> is a call without the
  third argument.
\<close>

definition other_names :: "msg list \<Rightarrow> string \<Rightarrow> string list option \<Rightarrow> label list" where
  "other_names history target participating =
     (if (case participating of None \<Rightarrow> False | Some ps \<Rightarrow> ps \<noteq> [])
      then map display (filter (\<lambda>p. p \<noteq> target) (case participating of None \<Rightarrow> [] | Some ps \<Rightarrow> ps))
      else
        let seen = seen_names target [] history
        in if seen = []
           then map (\<lambda>(k, v). Txt v) (filter (\<lambda>(k, v). k \<noteq> target) nameMap_entries)
           else seen)"

text \<open>\<^verbatim>\<open>otherNames.join(" and ")\<close>\<close>

fun join_and :: "string list \<Rightarrow> string" where
  "join_and [] = []"
| "join_and [x] = x"
| "join_and (x # y # ys) = x @ '' and '' @ join_and (y # ys)"

text \<open>Two line feeds.\<close>

definition blank :: string where
  "blank = [CHR 0x0A, CHR 0x0A]"

text \<open>The loop that builds \<^verbatim>\<open>transcript\<close>.\<close>

fun transcript_of :: "(string \<Rightarrow> string) \<Rightarrow> string \<Rightarrow> msg list \<Rightarrow> string" where
  "transcript_of proto_text transcript [] = transcript"
| "transcript_of proto_text transcript (m # history) =
     (if role m = Some ''user''
      then transcript_of proto_text (transcript @ ''[Human]: '' @ content m @ blank) history
      else
        (case provider_of m of
           None \<Rightarrow> transcript_of proto_text transcript history
         | Some p \<Rightarrow>
             (case nameMap p of
                None \<Rightarrow> transcript_of proto_text transcript history
              | Some l \<Rightarrow>
                  transcript_of proto_text
                    (transcript @ ''['' @ render proto_text l @ '']: '' @ content m @ blank) history)))"

text \<open>The dash of the last sentence, U+2014.\<close>

definition em_dash :: string where
  "em_dash = [CHR 0xE2, CHR 0x80, CHR 0x94]"

definition formatDiscussionPrompt ::
  "(string \<Rightarrow> string) \<Rightarrow> msg list \<Rightarrow> string \<Rightarrow> string list option \<Rightarrow> string" where
  "formatDiscussionPrompt proto_text history targetProvider participatingProviders =
     (let providerName = render proto_text (display targetProvider);
          othersStr = join_and (map (render proto_text)
                         (other_names history targetProvider participatingProviders));
          transcript = transcript_of proto_text [] history
      in ''You are '' @ providerName @ '' in a roundtable discussion with '' @ othersStr
           @ '' and a human moderator.'' @ blank
         @ ''Here is the full transcript so far:'' @ blank @ transcript
         @ ''Now respond as '' @ providerName
           @ ''. Briefly summarize or quote the key points from '' @ othersStr
           @ '' that you are addressing, then give your response. ''
         @ ''Engage directly with what each of the others said '' @ em_dash
           @ '' agree, disagree, or build on their points. Do not prefix your response with your name.'')"

section \<open>Notions used to state the properties\<close>

text \<open>One event applied to the four variables; an event that raises leaves them as they were.\<close>

definition apply_event :: "codex_parsed \<Rightarrow> jsval \<Rightarrow> codex_parsed" where
  "apply_event acc event = (case codex_event acc event of None \<Rightarrow> acc | Some acc' \<Rightarrow> acc')"

text \<open>The events of an output: its lines that \<^verbatim>\<open>JSON.parse\<close> accepts, parsed, in order.\<close>

definition codex_events :: "(string \<Rightarrow> jsval option) \<Rightarrow> string \<Rightarrow> jsval list" where
  "codex_events parse stdout = List.map_filter parse (codex_lines stdout)"

text \<open>A \<^verbatim>\<open>thread.started\<close> event with a thread id.\<close>

definition thread_started :: "jsval \<Rightarrow> bool" where
  "thread_started event =
     (get event ''type'' = Str ''thread.started'' \<and> truthy (get event ''thread_id''))"

text \<open>An \<^verbatim>\<open>item.completed\<close> event whose item has type \<^verbatim>\<open>agent_message\<close>.\<close>

definition agent_message_completed :: "jsval \<Rightarrow> bool" where
  "agent_message_completed event =
     (get event ''type'' = Str ''item.completed'' \<and> truthy (get event ''item'')
      \<and> get (get event ''item'') ''type'' = Str ''agent_message'')"

text \<open>A \<^verbatim>\<open>turn.completed\<close> event with usage.\<close>

definition turn_completed :: "jsval \<Rightarrow> bool" where
  "turn_completed event =
     (get event ''type'' = Str ''turn.completed'' \<and> truthy (get event ''usage''))"

subsection \<open>A sample output of the codex CLI\<close>

definition line_thread :: string where
  \<open>line_thread = ''{"type":"thread.started","thread_id":"t1"}''\<close>

definition line_msg_A :: string where
  \<open>line_msg_A = ''{"type":"item.completed","item":{"type":"agent_message","text":"A"}}''\<close>

definition line_msg_B :: string where
  \<open>line_msg_B = ''{"type":"item.completed","item":{"type":"agent_message","text":"B"}}''\<close>

definition line_usage :: string where
  \<open>line_usage = ''{"type":"turn.completed","usage":{"input_tokens":10,"output_tokens":5}}''\<close>

definition line_msg_5 :: string where
  \<open>line_msg_5 = ''{"type":"item.completed","item":{"type":"agent_message","text":5}}''\<close>

definition event_thread :: jsval where
  "event_thread = Obj [(''type'', Str ''thread.started''), (''thread_id'', Str ''t1'')]"

definition agent_message :: "jsval \<Rightarrow> jsval" where
  "agent_message text =
     Obj [(''type'', Str ''item.completed''),
          (''item'', Obj [(''type'', Str ''agent_message''), (''text'', text)])]"

definition event_usage :: jsval where
  "event_usage =
     Obj [(''type'', Str ''turn.completed''),
          (''usage'', Obj [(''input_tokens'', Num 10), (''output_tokens'', Num 5)])]"

text \<open>\<^verbatim>\<open>JSON.parse\<close> on the five sample lines; it rejects every other string used below.\<close>

definition sample_parse :: "string \<Rightarrow> jsval option" where
  "sample_parse s =
     (if s = line_thread then Some event_thread
      else if s = line_msg_A then Some (agent_message (Str ''A''))
      else if s = line_msg_B then Some (agent_message (Str ''B''))
      else if s = line_usage then Some event_usage
      else if s = line_msg_5 then Some (agent_message (Num 5))
      else None)"

definition sample_stdout :: string where
  "sample_stdout =
     ''codex starting'' @ [CHR 0x0A] @ line_thread @ [CHR 0x0A] @ line_msg_A @ [CHR 0x0A]
     @ line_msg_B @ [CHR 0x0A] @ line_usage @ [CHR 0x0A]"

subsection \<open>A sample host\<close>

text \<open>The \<^verbatim>\<open>+\<close> of two numbers; the samples add nothing else.\<close>

definition sample_plus :: "jsval \<Rightarrow> jsval \<Rightarrow> jsval" where
  "sample_plus a b = (case (a, b) of (Num x, Num y) \<Rightarrow> Num (x + y) | _ \<Rightarrow> Undefined)"

text \<open>A host on which both CLIs are installed and every spawned process ends as given.\<close>

definition sample_host :: "proc_outcome \<Rightarrow> host" where
  "sample_host outcome =
     \<lparr>JSON_parse = sample_parse, plus_js = sample_plus, spawn = (\<lambda>binary args. outcome),
      existsSync = (\<lambda>path. True), now = 1700000000000,
      toISOString = ''2023-11-14T22:13:20.000Z''\<rparr>"

definition plain_answer :: string where
  "plain_answer = ''  The answer is 42.'' @ [CHR 0x0A]"

definition codex_odd_output :: string where
  "codex_odd_output = ''codex starting'' @ [CHR 0x0A] @ line_msg_5 @ [CHR 0x0A]"

text \<open>An output of the codex CLI that is no JSON.\<close>

definition codex_plain_output :: string where
  "codex_plain_output = ''Not logged in. Run codex login.'' @ [CHR 0x0A]"

subsection \<open>Failure of a spawned process\<close>

text \<open>The timer fired, the spawn failed, or the process ended with a code other than 0.\<close>

fun failure_outcome :: "proc_outcome \<Rightarrow> bool" where
  "failure_outcome (Closed code stdout stderr) = (code \<noteq> Some 0)"
| "failure_outcome TimedOut = True"
| "failure_outcome (SpawnError m) = True"

text \<open>The CLI of a provider is where the handlers look for it (\<^verbatim>\<open>claude\<close> is not looked for).\<close>

definition cli_installed :: "host \<Rightarrow> string \<Rightarrow> bool" where
  "cli_installed h p =
     (if p = ''codex'' then existsSync h CODEX
      else if p = ''gemini'' then existsSync h GEMINI
      else True)"

subsection \<open>Sample conversations and requests\<close>

text \<open>A conversation with one recorded turn under \<^verbatim>\<open>claude\<close>, stored as \<^verbatim>\<open>conv_1\<close>.\<close>

definition pinned_conv :: conv where
  "pinned_conv =
     \<lparr>conv_sessionId = Str ''s-1'', conv_turns = 1, conv_created = ''2023-11-14T22:00:00.000Z'',
      conv_provider = Some ''claude''\<rparr>"

definition pinned_server :: server where
  "pinned_server = \<lparr>sessions = [''conv_1'' \<mapsto> pinned_conv], spawned = []\<rparr>"

definition empty_server :: server where
  "empty_server = \<lparr>sessions = Map.empty, spawned = []\<rparr>"

text \<open>\<^verbatim>\<open>{ prompt: "hello", conversationId: ..., provider: ... }\<close>\<close>

definition ask_request :: "string \<Rightarrow> string \<Rightarrow> jsval" where
  "ask_request convId p =
     Obj [(''prompt'', Str ''hello''), (''conversationId'', Str convId), (''provider'', Str p)]"


definition first_host :: host where
  "first_host = sample_host (Closed (Some 0) sample_stdout [])"

text \<open>The state after \<^verbatim>\<open>POST /new\<close> without a body, on an empty store.\<close>

definition after_new :: server where
  "after_new = fst (new_conversation first_host empty_server None)"

text \<open>Then \<^verbatim>\<open>POST /ask\<close> on the new conversation, requesting \<^verbatim>\<open>codex\<close>.\<close>

definition after_first_turn :: server where
  "after_first_turn =
     fst (ask first_host after_new (Some (ask_request ''conv_1700000000000'' ''codex'')))"


subsection \<open>Transcripts\<close>





text \<open>The closing sentences of the prompt.\<close>

definition instruction :: string where
  "instruction =
     ''Engage directly with what each of the others said '' @ em_dash
     @ '' agree, disagree, or build on their points. Do not prefix your response with your name.''"

section \<open>The parser of line-delimited events\<close>

lemma get_nullish: "nullish v \<Longrightarrow> get v k = Undefined"
  by (auto simp: nullish_def)

lemma sessionId_apply_event:
  "sessionId (apply_event acc ev) = (if thread_started ev then get ev ''thread_id'' else sessionId acc)"
  by (auto simp: apply_event_def codex_event_def thread_started_def Let_def get_nullish)

lemma result_apply_event:
  "result (apply_event acc ev) =
     (if agent_message_completed ev then js_or (get (get ev ''item'') ''text'') (Str [])
      else result acc)"
  by (auto simp: apply_event_def codex_event_def agent_message_completed_def Let_def get_nullish)

lemma tokenUsage_apply_event:
  "tokenUsage (apply_event acc ev) = (if turn_completed ev then get ev ''usage'' else tokenUsage acc)"
  by (auto simp: apply_event_def codex_event_def turn_completed_def Let_def get_nullish)

lemma aborted_apply_event:
  "aborted (apply_event acc ev) = (get ev ''type'' = Str ''turn.aborted'' \<or> aborted acc)"
  by (auto simp: apply_event_def codex_event_def Let_def get_nullish)

lemma codex_line_apply:
  "codex_line parse acc l = (case parse l of None \<Rightarrow> acc | Some ev \<Rightarrow> apply_event acc ev)"
  by (simp add: codex_line_def apply_event_def split: option.splits)

lemma foldl_codex_line:
  "foldl (codex_line parse) acc ls = foldl apply_event acc (List.map_filter parse ls)"
  by (induction ls arbitrary: acc) (simp_all add: codex_line_apply map_filter_simps split: option.splits)

lemma parse_events:
  "parseCodexJSONL parse stdout = foldl apply_event codex_init (codex_events parse stdout)"
  by (simp add: parseCodexJSONL_def codex_events_def foldl_codex_line)

lemma foldl_keeps:
  assumes "\<And>acc ev. ev \<in> set evs \<Longrightarrow> f (apply_event acc ev) = f acc"
  shows "f (foldl apply_event acc evs) = f acc"
  using assms by (induction evs arbitrary: acc) simp_all

lemma foldl_last:
  assumes "\<And>acc. f (apply_event acc ev) = v"
    and "\<And>acc e. e \<in> set post \<Longrightarrow> f (apply_event acc e) = f acc"
  shows "f (foldl apply_event acc (pre @ ev # post)) = v"
  using assms by (simp add: foldl_keeps)

lemma foldl_invariant:
  assumes "P acc" and "\<And>a e. e \<in> set evs \<Longrightarrow> P a \<Longrightarrow> P (apply_event a e)"
  shows "P (foldl apply_event acc evs)"
  using assms by (induction evs arbitrary: acc) simp_all

lemma skip_line:
  assumes "parse l = None"
  shows "foldl (codex_line parse) acc (pre @ l # post) = foldl (codex_line parse) acc (pre @ post)"
  using assms by (simp add: codex_line_def)

lemma sample_lines:
  "codex_lines sample_stdout = [''codex starting'', line_thread, line_msg_A, line_msg_B, line_usage]"
  by code_simp

lemma sample_events:
  "codex_events sample_parse sample_stdout =
     [event_thread, agent_message (Str ''A''), agent_message (Str ''B''), event_usage]"
  by code_simp

lemma sample_parsed:
  "parseCodexJSONL sample_parse sample_stdout =
     \<lparr>sessionId = Str ''t1'', result = Str ''B'',
      tokenUsage = Obj [(''input_tokens'', Num 10), (''output_tokens'', Num 5)], aborted = False\<rparr>"
  by code_simp

lemma no_events: "codex_events sample_parse ''codex starting'' = []"
  by code_simp

text \<open>
  Claim C5. For every output, with \<^verbatim>\<open>JSON.parse\<close> as the runtime has it: a line that does not
  parse can be deleted without changing the result; the session id is the thread id of the
  last \<^verbatim>\<open>thread.started\<close> event that has one; the result text is the text (or the empty string)
  of the last completed agent message; the token usage is the usage of the last
  \<^verbatim>\<open>turn.completed\<close> event that has one; with no completed agent message the result text is
  the empty string.
\<close>

theorem parseCodexJSONL_folds_events:
  "(\<forall>pre l post. codex_lines stdout = pre @ l # post \<and> parse l = None \<longrightarrow>
       parseCodexJSONL parse stdout = foldl (codex_line parse) codex_init (pre @ post))
   \<and> (\<forall>pre ev post. codex_events parse stdout = pre @ ev # post \<and> thread_started ev
          \<and> (\<forall>e\<in>set post. \<not> thread_started e) \<longrightarrow>
       sessionId (parseCodexJSONL parse stdout) = get ev ''thread_id'')
   \<and> (\<forall>pre ev post. codex_events parse stdout = pre @ ev # post \<and> agent_message_completed ev
          \<and> (\<forall>e\<in>set post. \<not> agent_message_completed e) \<longrightarrow>
       result (parseCodexJSONL parse stdout) = js_or (get (get ev ''item'') ''text'') (Str []))
   \<and> (\<forall>pre ev post. codex_events parse stdout = pre @ ev # post \<and> turn_completed ev
          \<and> (\<forall>e\<in>set post. \<not> turn_completed e) \<longrightarrow>
       tokenUsage (parseCodexJSONL parse stdout) = get ev ''usage'')
   \<and> ((\<forall>e\<in>set (codex_events parse stdout). \<not> agent_message_completed e) \<longrightarrow>
       result (parseCodexJSONL parse stdout) = Str [])"
proof (intro conjI allI impI)
  fix pre l post
  assume "codex_lines stdout = pre @ l # post \<and> parse l = None"
  then show "parseCodexJSONL parse stdout = foldl (codex_line parse) codex_init (pre @ post)"
    unfolding parseCodexJSONL_def using skip_line [of parse l codex_init pre post] by simp
next
  fix pre ev post
  assume a: "codex_events parse stdout = pre @ ev # post \<and> thread_started ev
          \<and> (\<forall>e\<in>set post. \<not> thread_started e)"
  show "sessionId (parseCodexJSONL parse stdout) = get ev ''thread_id''"
  proof -
    have "sessionId (foldl apply_event codex_init (pre @ ev # post)) = get ev ''thread_id''"
      using a by (intro foldl_last [where f = sessionId]) (simp_all add: sessionId_apply_event)
    with a show ?thesis
      by (simp only: parse_events)
  qed
next
  fix pre ev post
  assume a: "codex_events parse stdout = pre @ ev # post \<and> agent_message_completed ev
          \<and> (\<forall>e\<in>set post. \<not> agent_message_completed e)"
  show "result (parseCodexJSONL parse stdout) = js_or (get (get ev ''item'') ''text'') (Str [])"
  proof -
    have "result (foldl apply_event codex_init (pre @ ev # post))
            = js_or (get (get ev ''item'') ''text'') (Str [])"
      using a by (intro foldl_last [where f = result]) (simp_all add: result_apply_event)
    with a show ?thesis
      by (simp only: parse_events)
  qed
next
  fix pre ev post
  assume a: "codex_events parse stdout = pre @ ev # post \<and> turn_completed ev
          \<and> (\<forall>e\<in>set post. \<not> turn_completed e)"
  show "tokenUsage (parseCodexJSONL parse stdout) = get ev ''usage''"
  proof -
    have "tokenUsage (foldl apply_event codex_init (pre @ ev # post)) = get ev ''usage''"
      using a by (intro foldl_last [where f = tokenUsage]) (simp_all add: tokenUsage_apply_event)
    with a show ?thesis
      by (simp only: parse_events)
  qed
next
  assume "\<forall>e\<in>set (codex_events parse stdout). \<not> agent_message_completed e"
  then have "result (foldl apply_event codex_init (codex_events parse stdout)) = result codex_init"
    by (intro foldl_keeps [where f = result]) (simp add: result_apply_event)
  then show "result (parseCodexJSONL parse stdout) = Str []"
    by (simp add: parse_events codex_init_def)
qed

theorem parseCodexJSONL_folds_events_witness:
  "parseCodexJSONL sample_parse sample_stdout
     = foldl (codex_line sample_parse) codex_init [line_thread, line_msg_A, line_msg_B, line_usage]
   \<and> sessionId (parseCodexJSONL sample_parse sample_stdout) = Str ''t1''
   \<and> result (parseCodexJSONL sample_parse sample_stdout) = Str ''B''
   \<and> tokenUsage (parseCodexJSONL sample_parse sample_stdout)
       = Obj [(''input_tokens'', Num 10), (''output_tokens'', Num 5)]
   \<and> result (parseCodexJSONL sample_parse ''codex starting'') = Str []"
proof -
  note main = parseCodexJSONL_folds_events [of sample_stdout sample_parse]
  note none = parseCodexJSONL_folds_events [of "''codex starting''" sample_parse]
  have bad: "sample_parse ''codex starting'' = None"
    by code_simp
  have 1: "parseCodexJSONL sample_parse sample_stdout
     = foldl (codex_line sample_parse) codex_init ([] @ [line_thread, line_msg_A, line_msg_B, line_usage])"
    by (rule main [THEN conjunct1, rule_format, of "[]" "''codex starting''"])
       (simp add: sample_lines bad)
  have 2: "sessionId (parseCodexJSONL sample_parse sample_stdout) = get event_thread ''thread_id''"
    by (rule main [THEN conjunct2, THEN conjunct1, rule_format,
          of "[]" event_thread "[agent_message (Str ''A''), agent_message (Str ''B''), event_usage]"])
       (simp add: sample_events thread_started_def agent_message_def event_thread_def event_usage_def)
  have 3: "result (parseCodexJSONL sample_parse sample_stdout)
      = js_or (get (get (agent_message (Str ''B'')) ''item'') ''text'') (Str [])"
    by (rule main [THEN conjunct2, THEN conjunct2, THEN conjunct1, rule_format,
          of "[event_thread, agent_message (Str ''A'')]" "agent_message (Str ''B'')" "[event_usage]"])
       (simp add: sample_events agent_message_completed_def agent_message_def event_usage_def)
  have 4: "tokenUsage (parseCodexJSONL sample_parse sample_stdout) = get event_usage ''usage''"
    by (rule main [THEN conjunct2, THEN conjunct2, THEN conjunct2, THEN conjunct1, rule_format,
          of "[event_thread, agent_message (Str ''A''), agent_message (Str ''B'')]" event_usage "[]"])
       (simp add: sample_events turn_completed_def event_usage_def)
  from none no_events have 5: "result (parseCodexJSONL sample_parse ''codex starting'') = Str []"
    by simp
  from 1 2 3 4 5 show ?thesis
    by (simp add: js_or_def agent_message_def event_thread_def event_usage_def)
qed

lemma has_slice_js_or: "has_slice (js_or v (Str [])) = (has_slice v \<or> \<not> truthy v)"
  by (cases v) (simp_all add: js_or_def)

lemma result_truthy_or_empty:
  "truthy (result (parseCodexJSONL parse stdout)) \<or> result (parseCodexJSONL parse stdout) = Str []"
  unfolding parse_events
  by (rule foldl_invariant [where P = "\<lambda>a. truthy (result a) \<or> result a = Str []"])
     (auto simp: codex_init_def result_apply_event js_or_def)

lemma codex_try_None:
  "codex_try parse stdout = None \<longleftrightarrow> \<not> has_slice (result (parseCodexJSONL parse stdout))"
  using result_truthy_or_empty [of parse stdout]
  by (auto simp: codex_try_def Let_def has_slice_js_or)

lemma parse_defaults:
  assumes "\<forall>e\<in>set (codex_events parse stdout).
             \<not> thread_started e \<and> \<not> agent_message_completed e \<and> \<not> turn_completed e
             \<and> get e ''type'' \<noteq> Str ''turn.aborted''"
  shows "parseCodexJSONL parse stdout = codex_init"
proof -
  let ?r = "foldl apply_event codex_init (codex_events parse stdout)"
  have "sessionId ?r = sessionId codex_init"
    using assms by (intro foldl_keeps [where f = sessionId]) (simp add: sessionId_apply_event)
  moreover have "result ?r = result codex_init"
    using assms by (intro foldl_keeps [where f = result]) (simp add: result_apply_event)
  moreover have "tokenUsage ?r = tokenUsage codex_init"
    using assms by (intro foldl_keeps [where f = tokenUsage]) (simp add: tokenUsage_apply_event)
  moreover have "aborted ?r = aborted codex_init"
    using assms by (intro foldl_keeps [where f = aborted]) (simp add: aborted_apply_event)
  ultimately show ?thesis
    by (simp add: parse_events)
qed

lemma slice_kept:
  assumes "\<forall>e\<in>set (codex_events parse stdout).
             agent_message_completed e \<longrightarrow> has_slice (js_or (get (get e ''item'') ''text'') (Str []))"
  shows "has_slice (result (parseCodexJSONL parse stdout))"
  unfolding parse_events
  using assms
  by (intro foldl_invariant [where P = "\<lambda>a. has_slice (result a)"])
     (auto simp: codex_init_def result_apply_event)

text \<open>
  Claim C10, as stated, fails: the output whose one line is a completed agent message with
  the text \<^verbatim>\<open>5\<close> parses without an error, and then \<^verbatim>\<open>(parsed.result || "").slice\<close> is not a
  function; the \<^verbatim>\<open>catch\<close> of \<^verbatim>\<open>callCodex\<close> runs and resolves with the raw output.
\<close>

theorem codex_fallback_reached:
  "codex_try sample_parse line_msg_5 = None
   \<and> codex_close sample_parse (Some 0) line_msg_5 [] = Resolved (Obj [(''result'', Str line_msg_5)])"
proof -
  have "result (parseCodexJSONL sample_parse line_msg_5) = Num 5"
    by code_simp
  then have 1: "codex_try sample_parse line_msg_5 = None"
    by (simp add: codex_try_def Let_def js_or_def)
  have "trim line_msg_5 = line_msg_5"
    by code_simp
  with 1 show ?thesis
    by (simp add: codex_close_def)
qed

text \<open>
  Claim C10, amended. For every output, \<^verbatim>\<open>parseCodexJSONL\<close> returns (the model is a total
  function, the \<^verbatim>\<open>catch\<close> of each line being part of it), and with no matching event it
  returns \<^verbatim>\<open>{sessionId: null, result: "", tokenUsage: null, aborted: false}\<close>. The raw-output
  branch of \<^verbatim>\<open>callCodex\<close> is taken exactly when the parsed result text is neither a string nor
  an array; when the text of every completed agent message is a string, an array or falsy,
  a zero exit resolves with the parsed fields.
\<close>

theorem parseCodexJSONL_total_defaults:
  "((\<forall>e\<in>set (codex_events parse stdout).
        \<not> thread_started e \<and> \<not> agent_message_completed e \<and> \<not> turn_completed e
        \<and> get e ''type'' \<noteq> Str ''turn.aborted'') \<longrightarrow>
      parseCodexJSONL parse stdout
        = \<lparr>sessionId = Null, result = Str [], tokenUsage = Null, aborted = False\<rparr>)
   \<and> (codex_try parse stdout = None \<longleftrightarrow> \<not> has_slice (result (parseCodexJSONL parse stdout)))
   \<and> ((\<forall>e\<in>set (codex_events parse stdout).
          agent_message_completed e \<longrightarrow> has_slice (js_or (get (get e ''item'') ''text'') (Str [])))
       \<longrightarrow> codex_close parse (Some 0) stdout stderr
            = Resolved (Obj [(''result'', result (parseCodexJSONL parse stdout)),
                             (''session_id'', sessionId (parseCodexJSONL parse stdout)),
                             (''token_usage'', tokenUsage (parseCodexJSONL parse stdout))]))"
proof (intro conjI impI)
  assume "\<forall>e\<in>set (codex_events parse stdout).
        \<not> thread_started e \<and> \<not> agent_message_completed e \<and> \<not> turn_completed e
        \<and> get e ''type'' \<noteq> Str ''turn.aborted''"
  then show "parseCodexJSONL parse stdout
        = \<lparr>sessionId = Null, result = Str [], tokenUsage = Null, aborted = False\<rparr>"
    using parse_defaults [of parse stdout] by (simp add: codex_init_def)
next
  show "codex_try parse stdout = None \<longleftrightarrow> \<not> has_slice (result (parseCodexJSONL parse stdout))"
    by (rule codex_try_None)
next
  assume "\<forall>e\<in>set (codex_events parse stdout).
          agent_message_completed e \<longrightarrow> has_slice (js_or (get (get e ''item'') ''text'') (Str []))"
  then have "has_slice (result (parseCodexJSONL parse stdout))"
    by (rule slice_kept)
  then show "codex_close parse (Some 0) stdout stderr
            = Resolved (Obj [(''result'', result (parseCodexJSONL parse stdout)),
                             (''session_id'', sessionId (parseCodexJSONL parse stdout)),
                             (''token_usage'', tokenUsage (parseCodexJSONL parse stdout))])"
    by (simp add: codex_close_def codex_try_def Let_def has_slice_js_or)
qed

theorem parseCodexJSONL_total_defaults_witness:
  "parseCodexJSONL sample_parse ''codex starting''
     = \<lparr>sessionId = Null, result = Str [], tokenUsage = Null, aborted = False\<rparr>
   \<and> codex_close sample_parse (Some 0) sample_stdout []
     = Resolved (Obj [(''result'', Str ''B''), (''session_id'', Str ''t1''),
                      (''token_usage'', Obj [(''input_tokens'', Num 10), (''output_tokens'', Num 5)])])"
proof -
  have 1: "parseCodexJSONL sample_parse ''codex starting''
     = \<lparr>sessionId = Null, result = Str [], tokenUsage = Null, aborted = False\<rparr>"
    using parseCodexJSONL_total_defaults [of sample_parse "''codex starting''"] no_events by simp
  have "\<forall>e\<in>set (codex_events sample_parse sample_stdout).
          agent_message_completed e \<longrightarrow> has_slice (js_or (get (get e ''item'') ''text'') (Str []))"
    by (simp add: sample_events agent_message_def js_or_def agent_message_completed_def
          event_thread_def event_usage_def)
  with parseCodexJSONL_total_defaults [of sample_parse sample_stdout "[]"]
  have "codex_close sample_parse (Some 0) sample_stdout []
            = Resolved (Obj [(''result'', result (parseCodexJSONL sample_parse sample_stdout)),
                             (''session_id'', sessionId (parseCodexJSONL sample_parse sample_stdout)),
                             (''token_usage'', tokenUsage (parseCodexJSONL sample_parse sample_stdout))])"
    by blast
  with 1 show ?thesis
    by (simp add: sample_parsed)
qed

section \<open>The adapters\<close>

lemma extractTokens_raw:
  "extractTokens add (Obj [(''result'', v)]) p = Obj [(''input'', Num 0), (''output'', Num 0)]"
  by (simp add: extractTokens_def)

lemma no_events_of_unparsed:
  assumes "\<forall>l\<in>set ls. parse l = None"
  shows "List.map_filter parse ls = []"
  using assms by (induction ls) (simp_all add: map_filter_simps)

lemma codex_try_unparsed:
  assumes "\<forall>l\<in>set (codex_lines out). parse l = None"
  shows "codex_try parse out
           = Some (Obj [(''result'', Str []), (''session_id'', Null), (''token_usage'', Null)])"
proof -
  from assms have "codex_events parse out = []"
    by (simp add: codex_events_def no_events_of_unparsed)
  then have "parseCodexJSONL parse out = codex_init"
    by (simp add: parse_defaults)
  then show ?thesis
    by (simp add: codex_try_def Let_def codex_init_def js_or_def)
qed

lemma extractTokens_empty:
  "extractTokens add (Obj [(''result'', Str []), (''session_id'', Null), (''token_usage'', Null)]) p
     = Obj [(''input'', Num 0), (''output'', Num 0)]"
  by (simp add: extractTokens_def)

text \<open>
  Claim C3, as stated, fails for codex: \<^verbatim>\<open>parseCodexJSONL\<close> skips the lines that
  \<^verbatim>\<open>JSON.parse\<close> rejects, so on an output that is no JSON at all nothing throws, and
  \<^verbatim>\<open>callCodex\<close> resolves with the empty string as its result, not with the trimmed output.
\<close>

theorem codex_unparsed_output_is_dropped:
  "fst (callCodex (sample_host (Closed (Some 0) codex_plain_output [])) (Str ''hello'') (Obj []))
     = Resolved (Obj [(''result'', Str []), (''session_id'', Null), (''token_usage'', Null)])
   \<and> codex_lines codex_plain_output = [''Not logged in. Run codex login.'']
   \<and> sample_parse ''Not logged in. Run codex login.'' = None
   \<and> trim codex_plain_output = ''Not logged in. Run codex login.''"
proof -
  have l: "codex_lines codex_plain_output = [''Not logged in. Run codex login.'']"
    by code_simp
  have p: "sample_parse ''Not logged in. Run codex login.'' = None"
    by code_simp
  have t: "trim codex_plain_output = ''Not logged in. Run codex login.''"
    by code_simp
  from l p have "codex_try sample_parse codex_plain_output
      = Some (Obj [(''result'', Str []), (''session_id'', Null), (''token_usage'', Null)])"
    by (intro codex_try_unparsed) simp
  then have "fst (callCodex (sample_host (Closed (Some 0) codex_plain_output [])) (Str ''hello'') (Obj []))
     = Resolved (Obj [(''result'', Str []), (''session_id'', Null), (''token_usage'', Null)])"
    by (simp add: callCodex_def codex_close_def sample_host_def)
  with l p t show ?thesis
    by simp
qed

text \<open>
  Claim C3, amended. For \<^verbatim>\<open>callClaude\<close> and \<^verbatim>\<open>callGemini\<close>: when the process exits with code 0
  and the \<^verbatim>\<open>try\<close> block that decodes its output throws, as it does whenever \<^verbatim>\<open>JSON.parse\<close>
  rejects the output, the promise resolves with \<^verbatim>\<open>{ result: stdout.trim() }\<close>, which has the
  trimmed output as its result, no session id, and for which \<^verbatim>\<open>extractTokens\<close> gives
  \<^verbatim>\<open>{input: 0, output: 0}\<close> under every provider. For \<^verbatim>\<open>callCodex\<close>: when the process exits
  with code 0 and \<^verbatim>\<open>JSON.parse\<close> rejects every line, the promise resolves with the empty string
  as its result, \<^verbatim>\<open>null\<close> for the session id and for the usage, and \<^verbatim>\<open>extractTokens\<close> gives
  \<^verbatim>\<open>{input: 0, output: 0}\<close> for it; it resolves with \<^verbatim>\<open>{ result: stdout.trim() }\<close> only when
  its \<^verbatim>\<open>try\<close> block throws.
\<close>

theorem parse_failure_degrades:
  "(has_slice prompt \<and> options \<noteq> Null
      \<and> spawn h CLAUDE (claude_args prompt options) = Closed (Some 0) out err
      \<and> claude_try (JSON_parse h) out = None \<longrightarrow>
      fst (callClaude h prompt options) = Resolved (Obj [(''result'', Str (trim out))]))
   \<and> (has_slice prompt \<and> options \<noteq> Null
      \<and> spawn h GEMINI (gemini_args prompt options) = Closed (Some 0) out err
      \<and> gemini_try (JSON_parse h) (plus_js h) out = None \<longrightarrow>
      fst (callGemini h prompt options) = Resolved (Obj [(''result'', Str (trim out))]))
   \<and> (JSON_parse h out = None \<longrightarrow>
      claude_try (JSON_parse h) out = None \<and> gemini_try (JSON_parse h) (plus_js h) out = None)
   \<and> get (Obj [(''result'', Str (trim out))]) ''result'' = Str (trim out)
   \<and> get (Obj [(''result'', Str (trim out))]) ''session_id'' = Undefined
   \<and> (\<forall>p. extractTokens (plus_js h) (Obj [(''result'', Str (trim out))]) p
          = Obj [(''input'', Num 0), (''output'', Num 0)])
   \<and> (has_slice prompt \<and> options \<noteq> Null
      \<and> spawn h CODEX (codex_args prompt options) = Closed (Some 0) out err
      \<and> (\<forall>l\<in>set (codex_lines out). JSON_parse h l = None) \<longrightarrow>
      fst (callCodex h prompt options)
        = Resolved (Obj [(''result'', Str []), (''session_id'', Null), (''token_usage'', Null)]))
   \<and> \<not> truthy (get (Obj [(''result'', Str []), (''session_id'', Null), (''token_usage'', Null)])
                  ''session_id'')
   \<and> (\<forall>p. extractTokens (plus_js h)
              (Obj [(''result'', Str []), (''session_id'', Null), (''token_usage'', Null)]) p
          = Obj [(''input'', Num 0), (''output'', Num 0)])
   \<and> (has_slice prompt \<and> options \<noteq> Null
      \<and> spawn h CODEX (codex_args prompt options) = Closed (Some 0) out err
      \<and> codex_try (JSON_parse h) out = None \<longrightarrow>
      fst (callCodex h prompt options) = Resolved (Obj [(''result'', Str (trim out))]))"
proof -
  have claude: "has_slice prompt \<and> options \<noteq> Null
      \<and> spawn h CLAUDE (claude_args prompt options) = Closed (Some 0) out err
      \<and> claude_try (JSON_parse h) out = None \<longrightarrow>
      fst (callClaude h prompt options) = Resolved (Obj [(''result'', Str (trim out))])"
    by (simp add: callClaude_def claude_close_def)
  have gemini: "has_slice prompt \<and> options \<noteq> Null
      \<and> spawn h GEMINI (gemini_args prompt options) = Closed (Some 0) out err
      \<and> gemini_try (JSON_parse h) (plus_js h) out = None \<longrightarrow>
      fst (callGemini h prompt options) = Resolved (Obj [(''result'', Str (trim out))])"
    by (simp add: callGemini_def gemini_close_def)
  have rejected: "JSON_parse h out = None \<longrightarrow>
      claude_try (JSON_parse h) out = None \<and> gemini_try (JSON_parse h) (plus_js h) out = None"
    by (simp add: claude_try_def gemini_try_def)
  have unparsed: "has_slice prompt \<and> options \<noteq> Null
      \<and> spawn h CODEX (codex_args prompt options) = Closed (Some 0) out err
      \<and> (\<forall>l\<in>set (codex_lines out). JSON_parse h l = None) \<longrightarrow>
      fst (callCodex h prompt options)
        = Resolved (Obj [(''result'', Str []), (''session_id'', Null), (''token_usage'', Null)])"
    by (simp add: callCodex_def codex_close_def codex_try_unparsed)
  have thrown: "has_slice prompt \<and> options \<noteq> Null
      \<and> spawn h CODEX (codex_args prompt options) = Closed (Some 0) out err
      \<and> codex_try (JSON_parse h) out = None \<longrightarrow>
      fst (callCodex h prompt options) = Resolved (Obj [(''result'', Str (trim out))])"
    by (simp add: callCodex_def codex_close_def)
  from claude gemini rejected unparsed thrown show ?thesis
    by (simp add: extractTokens_raw extractTokens_empty)
qed

theorem parse_failure_degrades_witness:
  "fst (callClaude (sample_host (Closed (Some 0) plain_answer [])) (Str ''hello'') (Obj []))
     = Resolved (Obj [(''result'', Str ''The answer is 42.'')])
   \<and> fst (callGemini (sample_host (Closed (Some 0) plain_answer [])) (Str ''hello'') (Obj []))
     = Resolved (Obj [(''result'', Str ''The answer is 42.'')])
   \<and> extractTokens sample_plus (Obj [(''result'', Str ''The answer is 42.'')]) ''claude''
     = Obj [(''input'', Num 0), (''output'', Num 0)]
   \<and> fst (callCodex (sample_host (Closed (Some 0) plain_answer [])) (Str ''hello'') (Obj []))
     = Resolved (Obj [(''result'', Str []), (''session_id'', Null), (''token_usage'', Null)])
   \<and> fst (callCodex (sample_host (Closed (Some 0) codex_odd_output [])) (Str ''hello'') (Obj []))
     = Resolved (Obj [(''result'', Str (''codex starting'' @ [CHR 0x0A] @ line_msg_5))])"
proof -
  let ?h = "sample_host (Closed (Some 0) plain_answer [])"
  let ?k = "sample_host (Closed (Some 0) codex_odd_output [])"
  note plain = parse_failure_degrades [of "Str ''hello''" "Obj []" ?h plain_answer "[]"]
  note odd = parse_failure_degrades [of "Str ''hello''" "Obj []" ?k codex_odd_output "[]"]
  have p: "sample_parse plain_answer = None"
    by code_simp
  have t: "trim plain_answer = ''The answer is 42.''"
    by code_simp
  have l: "\<forall>l\<in>set (codex_lines plain_answer). sample_parse l = None"
    by code_simp
  have u: "trim codex_odd_output = ''codex starting'' @ [CHR 0x0A] @ line_msg_5"
    by code_simp
  have "result (parseCodexJSONL sample_parse codex_odd_output) = Num 5"
    by code_simp
  then have c: "codex_try sample_parse codex_odd_output = None"
    by (simp add: codex_try_def Let_def js_or_def)
  have 1: "fst (callClaude ?h (Str ''hello'') (Obj [])) = Resolved (Obj [(''result'', Str (trim plain_answer))])"
    using plain p by (simp add: sample_host_def)
  have 2: "fst (callGemini ?h (Str ''hello'') (Obj [])) = Resolved (Obj [(''result'', Str (trim plain_answer))])"
    using plain p by (simp add: sample_host_def)
  have 3: "extractTokens sample_plus (Obj [(''result'', Str (trim plain_answer))]) ''claude''
     = Obj [(''input'', Num 0), (''output'', Num 0)]"
    using plain by (simp add: sample_host_def)
  have 4: "fst (callCodex ?h (Str ''hello'') (Obj []))
     = Resolved (Obj [(''result'', Str []), (''session_id'', Null), (''token_usage'', Null)])"
    using plain l by (simp add: sample_host_def)
  have 5: "fst (callCodex ?k (Str ''hello'') (Obj [])) = Resolved (Obj [(''result'', Str (trim codex_odd_output))])"
    using odd c by (simp add: sample_host_def)
  from 1 2 3 4 5 show ?thesis
    by (simp add: t u)
qed

text \<open>
  Claim C4. For each of the three adapters: a process that ends with a code other than 0
  (or by a signal) rejects the promise, whatever it wrote to its standard output; the message
  is the standard error when there is one, else \<^verbatim>\<open>"<name> exited with code <code>"\<close>.
\<close>

theorem nonzero_exit_rejects:
  assumes "code \<noteq> Some 0" and "has_slice prompt" and "options \<noteq> Null"
  shows
    "(spawn h CLAUDE (claude_args prompt options) = Closed code out err \<longrightarrow>
        fst (callClaude h prompt options)
          = Rejected (Error (if err \<noteq> [] then err else ''claude exited with code '' @ show_code code)))
     \<and> (spawn h GEMINI (gemini_args prompt options) = Closed code out err \<longrightarrow>
        fst (callGemini h prompt options)
          = Rejected (Error (if err \<noteq> [] then err else ''gemini exited with code '' @ show_code code)))
     \<and> (spawn h CODEX (codex_args prompt options) = Closed code out err \<longrightarrow>
        fst (callCodex h prompt options)
          = Rejected (Error (if err \<noteq> [] then err else ''codex exited with code '' @ show_code code)))"
  using assms
  by (simp add: callClaude_def callGemini_def callCodex_def claude_close_def gemini_close_def
        codex_close_def)

theorem nonzero_exit_rejects_witness:
  "fst (callClaude (sample_host (Closed (Some 1) line_msg_A [])) (Str ''hello'') (Obj []))
     = Rejected (Error ''claude exited with code 1'')
   \<and> fst (callGemini (sample_host (Closed None line_msg_A ''killed'')) (Str ''hello'') (Obj []))
     = Rejected (Error ''killed'')
   \<and> fst (callCodex (sample_host (Closed (Some 127) [] [])) (Str ''hello'') (Obj []))
     = Rejected (Error ''codex exited with code 127'')"
proof -
  have c1: "show_code (Some 1) = ''1''" and c127: "show_code (Some 127) = ''127''"
    by code_simp+
  have 1: "fst (callClaude (sample_host (Closed (Some 1) line_msg_A [])) (Str ''hello'') (Obj []))
     = Rejected (Error ''claude exited with code 1'')"
    using nonzero_exit_rejects [of "Some 1" "Str ''hello''" "Obj []"
        "sample_host (Closed (Some 1) line_msg_A [])" line_msg_A "[]"]
    by (simp add: sample_host_def c1)
  have 2: "fst (callGemini (sample_host (Closed None line_msg_A ''killed'')) (Str ''hello'') (Obj []))
     = Rejected (Error ''killed'')"
    using nonzero_exit_rejects [of None "Str ''hello''" "Obj []"
        "sample_host (Closed None line_msg_A ''killed'')" line_msg_A "''killed''"]
    by (simp add: sample_host_def)
  have 3: "fst (callCodex (sample_host (Closed (Some 127) [] [])) (Str ''hello'') (Obj []))
     = Rejected (Error ''codex exited with code 127'')"
    using nonzero_exit_rejects [of "Some 127" "Str ''hello''" "Obj []"
        "sample_host (Closed (Some 127) [] [])" "[]" "[]"]
    by (simp add: sample_host_def c127)
  from 1 2 3 show ?thesis by simp
qed

section \<open>The handler of /ask\<close>

lemma resolve_existing:
  assumes "sessions w cid = Some c" and "cid \<noteq> []"
  shows "resolve_conv h w (Str cid) p = (cid, w)"
  using assms by (simp add: resolve_conv_def sessions_has_def)

lemma prepare_valid:
  assumes "\<not> nullish body" and "truthy (get body ''prompt'')"
    and "js_or (get body ''provider'') (Str ''claude'') = Str b"
    and "b = ''claude'' \<or> b = ''codex'' \<or> b = ''gemini''" and "cli_installed h b"
  shows "ask_prepare h w (Some body) =
     (case resolve_conv h w (get body ''conversationId'') b of
        (convId, w1) \<Rightarrow>
          (case sessions w1 convId of
             None \<Rightarrow> Inl (w1, Failed TypeError)
           | Some c \<Rightarrow>
               if conv_turns c > 0 \<and> provider_set c \<and> conv_provider c \<noteq> Some b
               then Inl (w1, ProviderMismatch (case conv_provider c of Some q \<Rightarrow> q | None \<Rightarrow> []))
               else
                 let c' = (if \<not> provider_set c then c\<lparr>conv_provider := Some b\<rparr> else c);
                     w2 = w1\<lparr>sessions := (sessions w1)(convId \<mapsto> c')\<rparr>
                 in if \<not> has_slice (get body ''prompt'') then Inl (w2, Failed TypeError)
                    else Inr (w2, convId, b, body, c')))"
proof -
  from assms(4,5) have "\<not> (b = ''codex'' \<and> \<not> existsSync h CODEX)"
    and "\<not> (b = ''gemini'' \<and> \<not> existsSync h GEMINI)"
    and "\<not> (b \<noteq> ''claude'' \<and> b \<noteq> ''codex'' \<and> b \<noteq> ''gemini'')"
    by (auto simp: cli_installed_def)
  with assms(1,2,3) show ?thesis
    unfolding ask_prepare_def by (simp only: option.case jsval.case if_False if_True not_True_eq_False not_False_eq_True)
qed

lemma prepare_invalid:
  assumes "\<not> (\<not> nullish body \<and> truthy (get body ''prompt'')
             \<and> (\<exists>b. js_or (get body ''provider'') (Str ''claude'') = Str b
                   \<and> (b = ''claude'' \<or> b = ''codex'' \<or> b = ''gemini'') \<and> cli_installed h b))"
  shows "\<exists>e. ask_prepare h w (Some body) = Inl (w, e)"
proof (cases "nullish body \<or> \<not> truthy (get body ''prompt'')")
  case True
  then show ?thesis
    by (auto simp: ask_prepare_def)
next
  case False
  show ?thesis
  proof (cases "js_or (get body ''provider'') (Str ''claude'')")
    case (Str b)
    with assms False have "\<not> ((b = ''claude'' \<or> b = ''codex'' \<or> b = ''gemini'') \<and> cli_installed h b)"
      by simp
    then have "(b \<noteq> ''claude'' \<and> b \<noteq> ''codex'' \<and> b \<noteq> ''gemini'')
                 \<or> (b = ''codex'' \<and> \<not> existsSync h CODEX) \<or> (b = ''gemini'' \<and> \<not> existsSync h GEMINI)"
      by (auto simp: cli_installed_def split: if_splits)
    with False Str show ?thesis
      unfolding ask_prepare_def by (auto simp del: One_nat_def)
  qed (use False in \<open>simp_all add: ask_prepare_def\<close>)
qed





lemma prepare_Inr:
  assumes "ask_prepare h w (Some body) = Inr (w1, cid, p, body', c)"
  shows "body' = body" and "sessions w1 cid = Some c" and "spawned w1 = spawned w"
    and "truthy (get body ''conversationId'') \<and> sessions_has w (get body ''conversationId'')
         \<and> sessions w cid = Some c0
         \<longrightarrow> conv_turns c = conv_turns c0 \<and> conv_sessionId c = conv_sessionId c0"
proof -
  have valid: "\<not> nullish body \<and> truthy (get body ''prompt'')
             \<and> (\<exists>b. js_or (get body ''provider'') (Str ''claude'') = Str b
                   \<and> (b = ''claude'' \<or> b = ''codex'' \<or> b = ''gemini'') \<and> cli_installed h b)"
    using prepare_invalid [of body h w] assms by auto
  then obtain b where b: "js_or (get body ''provider'') (Str ''claude'') = Str b"
    "b = ''claude'' \<or> b = ''codex'' \<or> b = ''gemini''" "cli_installed h b"
    by blast
  from valid b have eq: "ask_prepare h w (Some body) =
     (case resolve_conv h w (get body ''conversationId'') b of
        (convId, w1) \<Rightarrow>
          (case sessions w1 convId of
             None \<Rightarrow> Inl (w1, Failed TypeError)
           | Some c \<Rightarrow>
               if conv_turns c > 0 \<and> provider_set c \<and> conv_provider c \<noteq> Some b
               then Inl (w1, ProviderMismatch (case conv_provider c of Some q \<Rightarrow> q | None \<Rightarrow> []))
               else
                 let c' = (if \<not> provider_set c then c\<lparr>conv_provider := Some b\<rparr> else c);
                     w2 = w1\<lparr>sessions := (sessions w1)(convId \<mapsto> c')\<rparr>
                 in if \<not> has_slice (get body ''prompt'') then Inl (w2, Failed TypeError)
                    else Inr (w2, convId, b, body, c')))"
    by (intro prepare_valid) simp_all
  obtain convId w0 where r: "resolve_conv h w (get body ''conversationId'') b = (convId, w0)"
    by (cases "resolve_conv h w (get body ''conversationId'') b")
  obtain c1 where c1: "sessions w0 convId = Some c1"
    using assms eq r by (cases "sessions w0 convId") simp_all
  let ?c' = "if \<not> provider_set c1 then c1\<lparr>conv_provider := Some b\<rparr> else c1"
  from assms [unfolded eq] r c1
  have res: "w1 = w0\<lparr>sessions := (sessions w0)(convId \<mapsto> ?c')\<rparr>" "cid = convId" "p = b"
    "body' = body" "c = ?c'"
    by (auto simp: Let_def split: if_splits)
  show "body' = body" by (rule res)
  show "sessions w1 cid = Some c" by (simp add: res)
  have sp: "spawned w0 = spawned w"
    using r by (auto simp: resolve_conv_def split: if_splits jsval.splits)
  then show "spawned w1 = spawned w" by (simp add: res)
  show "truthy (get body ''conversationId'') \<and> sessions_has w (get body ''conversationId'')
         \<and> sessions w cid = Some c0
         \<longrightarrow> conv_turns c = conv_turns c0 \<and> conv_sessionId c = conv_sessionId c0"
  proof
    assume a: "truthy (get body ''conversationId'') \<and> sessions_has w (get body ''conversationId'')
         \<and> sessions w cid = Some c0"
    then have "w0 = w"
      using r by (auto simp: resolve_conv_def split: jsval.splits)
    with a c1 res have "c1 = c0" by simp
    with res show "conv_turns c = conv_turns c0 \<and> conv_sessionId c = conv_sessionId c0"
      by simp
  qed
qed

lemma invoke_failure:
  assumes "snd (ask_invoke h p body c) = [(bin, args)]" and "failure_outcome (spawn h bin args)"
  shows "\<exists>e. fst (ask_invoke h p body c) = Rejected e"
  using assms
  by (cases "spawn h bin args")
     (auto simp: ask_invoke_def callClaude_def callGemini_def callCodex_def claude_close_def
        gemini_close_def codex_close_def split: if_splits)

text \<open>
  Claim C2. For every request to \<^verbatim>\<open>/ask\<close> that reaches its adapter: a spawned process that
  times out, fails to spawn or ends with a code other than 0 rejects the adapter's promise;
  whenever the promise is rejected the request is answered with that failure and the store is
  the store at the time of the call, so the conversation has the turn count and session id it
  had then, which for a conversation that the request named are those it had before the
  request. Only when the promise resolves is the turn counted and the session id replaced by a
  new one.
\<close>

theorem failed_invocation_keeps_conversation:
  assumes "ask_prepare h w (Some body) = Inr (w1, cid, p, body', c)"
  shows
    "(\<forall>bin args. snd (ask_invoke h p body c) = [(bin, args)] \<and> failure_outcome (spawn h bin args)
        \<longrightarrow> (\<exists>e. fst (ask_invoke h p body c) = Rejected e))
     \<and> (\<forall>e. fst (ask_invoke h p body c) = Rejected e \<longrightarrow>
          snd (ask h w (Some body)) = Inl (Failed e)
          \<and> sessions (fst (ask h w (Some body))) = sessions w1
          \<and> sessions (fst (ask h w (Some body))) cid = Some c
          \<and> (\<forall>c0. truthy (get body ''conversationId'')
                   \<and> sessions_has w (get body ''conversationId'') \<and> sessions w cid = Some c0
                \<longrightarrow> conv_turns c = conv_turns c0 \<and> conv_sessionId c = conv_sessionId c0))
     \<and> (\<forall>r. fst (ask_invoke h p body c) = Resolved r \<longrightarrow>
          (\<exists>c'. sessions (fst (ask h w (Some body))) cid = Some c'
             \<and> conv_turns c' = conv_turns c + 1
             \<and> conv_sessionId c'
                 = (if truthy (get r ''session_id'') then get r ''session_id'' else conv_sessionId c)))"
proof (intro conjI allI impI)
  fix bin args
  assume "snd (ask_invoke h p body c) = [(bin, args)] \<and> failure_outcome (spawn h bin args)"
  then show "\<exists>e. fst (ask_invoke h p body c) = Rejected e"
    using invoke_failure by blast
next
  fix e
  assume rej: "fst (ask_invoke h p body c) = Rejected e"
  note b = prepare_Inr(1) [OF assms]
  from rej obtain procs where inv: "ask_invoke h p body c = (Rejected e, procs)"
    by (cases "ask_invoke h p body c") simp
  have a: "ask h w (Some body) = (w1\<lparr>spawned := spawned w1 @ procs\<rparr>, Inl (Failed e))"
    using assms inv b by (simp add: ask_def)
  show "snd (ask h w (Some body)) = Inl (Failed e)"
    by (simp add: a)
  show "sessions (fst (ask h w (Some body))) = sessions w1"
    by (simp add: a)
  show "sessions (fst (ask h w (Some body))) cid = Some c"
    using prepare_Inr(2) [OF assms] by (simp add: a)
  fix c0
  assume "truthy (get body ''conversationId'')
                   \<and> sessions_has w (get body ''conversationId'') \<and> sessions w cid = Some c0"
  then have "conv_turns c = conv_turns c0 \<and> conv_sessionId c = conv_sessionId c0"
    using prepare_Inr(4) [OF assms] by blast
  then show "conv_turns c = conv_turns c0" and "conv_sessionId c = conv_sessionId c0"
    by simp_all
next
  fix r
  assume res: "fst (ask_invoke h p body c) = Resolved r"
  note b = prepare_Inr(1) [OF assms]
  from res obtain procs where inv: "ask_invoke h p body c = (Resolved r, procs)"
    by (cases "ask_invoke h p body c") simp
  show "\<exists>c'. sessions (fst (ask h w (Some body))) cid = Some c'
             \<and> conv_turns c' = conv_turns c + 1
             \<and> conv_sessionId c'
                 = (if truthy (get r ''session_id'') then get r ''session_id'' else conv_sessionId c)"
    using assms inv b by (simp add: ask_def ask_finish_def Let_def)
qed

lemma prepare_pinned_claude:
  "ask_prepare (sample_host outcome) pinned_server (Some (ask_request ''conv_1'' ''claude''))
     = Inr (pinned_server\<lparr>sessions := (sessions pinned_server)(''conv_1'' \<mapsto> pinned_conv)\<rparr>,
            ''conv_1'', ''claude'', ask_request ''conv_1'' ''claude'', pinned_conv)"
proof -
  have "resolve_conv (sample_host outcome) pinned_server (Str ''conv_1'') ''claude''
          = (''conv_1'', pinned_server)"
    by (rule resolve_existing [where c = pinned_conv]) (simp_all add: pinned_server_def)
  moreover have "sessions pinned_server ''conv_1'' = Some pinned_conv"
    by (simp add: pinned_server_def)
  moreover have "get (ask_request ''conv_1'' ''claude'') ''conversationId'' = Str ''conv_1''"
    and "get (ask_request ''conv_1'' ''claude'') ''prompt'' = Str ''hello''"
    by (simp_all add: ask_request_def)
  moreover have "provider_set pinned_conv" and "conv_provider pinned_conv = Some ''claude''"
    by (simp_all add: provider_set_def pinned_conv_def)
  ultimately show ?thesis
    by (subst prepare_valid [where b = "''claude''"])
       (simp_all add: nullish_def ask_request_def js_or_def cli_installed_def)
qed

theorem failed_invocation_keeps_conversation_witness:
  "snd (ask (sample_host TimedOut) pinned_server (Some (ask_request ''conv_1'' ''claude'')))
     = Inl (Failed (Error ''Claude timed out after 120s''))
   \<and> sessions (fst (ask (sample_host TimedOut) pinned_server (Some (ask_request ''conv_1'' ''claude''))))
        ''conv_1'' = Some pinned_conv
   \<and> (\<exists>c'. sessions (fst (ask (sample_host (Closed (Some 0) plain_answer [])) pinned_server
                             (Some (ask_request ''conv_1'' ''claude'')))) ''conv_1'' = Some c'
          \<and> conv_turns c' = 2 \<and> conv_sessionId c' = Str ''s-1'')"
proof -
  let ?body = "ask_request ''conv_1'' ''claude''"
  let ?w1 = "pinned_server\<lparr>sessions := (sessions pinned_server)(''conv_1'' \<mapsto> pinned_conv)\<rparr>"
  note fail = failed_invocation_keeps_conversation [OF prepare_pinned_claude [of TimedOut]]
  note ok = failed_invocation_keeps_conversation
                [OF prepare_pinned_claude [of "Closed (Some 0) plain_answer []"]]
  have "fst (ask_invoke (sample_host TimedOut) ''claude'' ?body pinned_conv)
          = Rejected (Error ''Claude timed out after 120s'')"
    by (simp add: ask_invoke_def callClaude_def sample_host_def ask_request_def)
  with fail have 1:
    "snd (ask (sample_host TimedOut) pinned_server (Some ?body))
       = Inl (Failed (Error ''Claude timed out after 120s''))"
    "sessions (fst (ask (sample_host TimedOut) pinned_server (Some ?body))) ''conv_1'' = Some pinned_conv"
    by blast+
  have "sample_parse plain_answer = None"
    by code_simp
  then have "fst (ask_invoke (sample_host (Closed (Some 0) plain_answer [])) ''claude'' ?body pinned_conv)
          = Resolved (Obj [(''result'', Str (trim plain_answer))])"
    by (simp add: ask_invoke_def callClaude_def sample_host_def ask_request_def claude_close_def
          claude_try_def)
  with ok have "\<exists>c'. sessions (fst (ask (sample_host (Closed (Some 0) plain_answer [])) pinned_server
                             (Some ?body))) ''conv_1'' = Some c'
          \<and> conv_turns c' = conv_turns pinned_conv + 1
          \<and> conv_sessionId c' = (if truthy (get (Obj [(''result'', Str (trim plain_answer))]) ''session_id'')
                 then get (Obj [(''result'', Str (trim plain_answer))]) ''session_id''
                 else conv_sessionId pinned_conv)"
    by blast
  then have 2: "\<exists>c'. sessions (fst (ask (sample_host (Closed (Some 0) plain_answer [])) pinned_server
                             (Some ?body))) ''conv_1'' = Some c'
          \<and> conv_turns c' = 2 \<and> conv_sessionId c' = Str ''s-1''"
    by (simp add: pinned_conv_def eval_nat_numeral)
  from 1 2 show ?thesis
    by simp
qed

text \<open>
  Claim C8 on the code. \<^verbatim>\<open>POST /new\<close> without a body stores a conversation bound to
  \<^verbatim>\<open>claude\<close>. A first \<^verbatim>\<open>POST /ask\<close> on it requesting \<^verbatim>\<open>codex\<close> passes the check (no turn is
  recorded yet), spawns the codex CLI and records the turn and the thread id, and the stored
  provider stays \<^verbatim>\<open>claude\<close>: it is not the kind of the first successful turn. The same request
  again is refused, ``This conversation uses claude''.
\<close>

theorem stored_kind_differs_from_first_turn:
  "sessions after_new ''conv_1700000000000''
     = Some \<lparr>conv_sessionId = Null, conv_turns = 0, conv_created = ''2023-11-14T22:13:20.000Z'',
             conv_provider = Some ''claude''\<rparr>
   \<and> spawned after_first_turn
     = [(CODEX, [Str ''exec'', Str ''hello'', Str ''--json'', Str ''--full-auto'',
                 Str ''--skip-git-repo-check''])]
   \<and> sessions after_first_turn ''conv_1700000000000''
     = Some \<lparr>conv_sessionId = Str ''t1'', conv_turns = 1, conv_created = ''2023-11-14T22:13:20.000Z'',
             conv_provider = Some ''claude''\<rparr>
   \<and> snd (ask first_host after_first_turn (Some (ask_request ''conv_1700000000000'' ''codex'')))
     = Inl (ProviderMismatch ''claude'')"
  by code_simp

section \<open>The discussion prompt\<close>




lemma derived_nonempty:
  "filter (\<lambda>(k, v). k \<noteq> target) nameMap_entries \<noteq> []"
proof (cases "target = ''claude''")
  case True
  then show ?thesis by (simp add: nameMap_entries_def)
next
  case False
  then show ?thesis by (simp add: nameMap_entries_def)
qed

lemma other_names_derived:
  "other_names history target None \<noteq> []" "other_names history target (Some []) \<noteq> []"
  by (simp_all add: other_names_def Let_def derived_nonempty)




text \<open>
  Claim C7 on the code. A list of participants that holds the target alone is not empty, so
  the first branch is taken, and the filter leaves no addressee: the prompt reads ``in a
  roundtable discussion with  and a human moderator''. Without a list, or with an empty one,
  the addressees are never empty, whatever the transcript and the target.
\<close>

theorem explicit_list_of_target_only:
  "other_names history ''gemini'' (Some [''gemini'']) = []
   \<and> formatDiscussionPrompt proto_text [] ''gemini'' (Some [''gemini''])
       = ''You are Gemini in a roundtable discussion with  and a human moderator.'' @ blank
         @ ''Here is the full transcript so far:'' @ blank
         @ ''Now respond as Gemini. Briefly summarize or quote the key points from ''
         @ '' that you are addressing, then give your response. '' @ instruction
   \<and> other_names history target None \<noteq> []
   \<and> other_names history target (Some []) \<noteq> []"
proof -
  have 1: "other_names history ''gemini'' (Some [''gemini'']) = []" for history
    by (simp add: other_names_def)
  have "display ''gemini'' = Txt ''Gemini''"
    by (simp add: display_def nameMap_def nameMap_entries_def)
  then have "formatDiscussionPrompt proto_text [] ''gemini'' (Some [''gemini''])
       = ''You are Gemini in a roundtable discussion with  and a human moderator.'' @ blank
         @ ''Here is the full transcript so far:'' @ blank
         @ ''Now respond as Gemini. Briefly summarize or quote the key points from ''
         @ '' that you are addressing, then give your response. '' @ instruction"
    by (simp add: formatDiscussionPrompt_def 1 render_def instruction_def)
  with 1 other_names_derived show ?thesis
    by blast
qed

end
